theory Spec2Isabelle
  imports Main "HOL-Library.Word"
begin

section \<open>Values, formatting and plain errors\<close>

text \<open>
  Go strings are byte sequences and \<open>len\<close> counts bytes; they are modelled as
  \<^typ>\<open>string\<close> (a list of 8-bit characters), a byte slice as a list of 8-bit words.
  A value of Go's \<open>any\<close> is one of the dynamic values the validators store in an error.
\<close>

type_synonym bytes = "8 word list"

datatype any = AnyNil | AnyString string | AnyInt int

text \<open>\<open>%d\<close> of \<open>fmt.Sprintf\<close>: the decimal digits, with a minus sign for negatives.\<close>

definition digit_char :: "nat \<Rightarrow> char" where
  "digit_char n = ''0123456789'' ! n"

function show_nat :: "nat \<Rightarrow> string" where
  "show_nat n = (if n < 10 then [digit_char n] else show_nat (n div 10) @ [digit_char (n mod 10)])"
  by pat_completeness auto
termination
  by (relation "measure id") auto

declare show_nat.simps [simp del]

definition format_d :: "int \<Rightarrow> string" where
  "format_d i = (if i < 0 then CHR ''-'' # show_nat (nat (- i)) else show_nat (nat i))"

text \<open>\<open>%v\<close> of \<open>fmt.Sprintf\<close> on the dynamic values above.\<close>

fun format_v :: "any \<Rightarrow> string" where
  "format_v AnyNil = ''<nil>''"
| "format_v (AnyString s) = s"
| "format_v (AnyInt i) = format_d i"

section \<open>Context (internal/model/validation/context.go)\<close>

type_synonym metadata = "string \<rightharpoonup> any"

text \<open>
  A Context passed by value: the target and the content of its metadata map
  (\<open>None\<close> is the nil map). Validators only read it.
\<close>

record Context =
  Target :: string
  Metadata :: "metadata option"

definition NewContext :: "string \<Rightarrow> Context" where
  "NewContext target = \<lparr>Target = target, Metadata = Some Map.empty\<rparr>"

text \<open>
  The copy loop \<open>for k, v := range c.Metadata { newMetadata[k] = v }\<close> writes every entry
  of the receiver's map into the fresh map: the fresh map overlaid with the receiver's.
\<close>

definition WithMetadata :: "Context \<Rightarrow> string \<Rightarrow> any \<Rightarrow> Context" where
  "WithMetadata c key v =
     (let newMetadata = Map.empty;
          newMetadata = (case Metadata c of None \<Rightarrow> newMetadata | Some m \<Rightarrow> newMetadata ++ m);
          newMetadata = newMetadata(key \<mapsto> v)
      in \<lparr>Target = Target c, Metadata = Some newMetadata\<rparr>)"

subsection \<open>The same operations with the map as a reference\<close>

text \<open>
  A Go map is a reference: two Context values may share one map, and a write through one
  is seen through the other. Where that matters the metadata maps live in a store of maps,
  addressed by their index, and a Context holds the address (\<open>None\<close> is the nil map).
  \<open>make(map[string]interface{})\<close> allocates the next free address.
\<close>

type_synonym map_ref = nat
type_synonym map_store = "metadata list"

record ContextRef =
  RTarget :: string
  RMetadata :: "map_ref option"

definition make_map :: "map_store \<Rightarrow> map_ref \<times> map_store" where
  "make_map h = (length h, h @ [Map.empty])"

definition NewContext_ref :: "string \<Rightarrow> map_store \<Rightarrow> ContextRef \<times> map_store" where
  "NewContext_ref target h =
     (case make_map h of (a, h1) \<Rightarrow> (\<lparr>RTarget = target, RMetadata = Some a\<rparr>, h1))"

definition WithMetadata_ref ::
    "ContextRef \<Rightarrow> string \<Rightarrow> any \<Rightarrow> map_store \<Rightarrow> ContextRef \<times> map_store" where
  "WithMetadata_ref c key v h =
     (case make_map h of (newMetadata, h1) \<Rightarrow>
        let h2 = (case RMetadata c of
                    None \<Rightarrow> h1
                  | Some r \<Rightarrow> h1[newMetadata := (h1 ! newMetadata) ++ (h1 ! r)]);
            h3 = h2[newMetadata := (h2 ! newMetadata)(key \<mapsto> v)]
        in (\<lparr>RTarget = RTarget c, RMetadata = Some newMetadata\<rparr>, h3))"

text \<open>A reference is valid when it points into the store; reading a Context follows it.\<close>

definition valid_ref :: "map_store \<Rightarrow> ContextRef \<Rightarrow> bool" where
  "valid_ref h c = (case RMetadata c of None \<Rightarrow> True | Some r \<Rightarrow> r < length h)"

definition read_context :: "map_store \<Rightarrow> ContextRef \<Rightarrow> Context" where
  "read_context h c =
     \<lparr>Target = RTarget c, Metadata = (case RMetadata c of None \<Rightarrow> None | Some r \<Rightarrow> Some (h ! r))\<rparr>"

section \<open>ValidationError and ValidationResult (internal/model/validation/errors.go)\<close>

text \<open>
  The declaration of \<open>errors.ErrorData\<close> with the optional message (\<open>Message *string\<close>)
  is not among the sources; its fields are taken from \<open>errors/interface.go\<close>, with the
  message optional as \<open>NewValidationError\<close>, \<open>Error\<close> and the tests use it.
\<close>

record ErrorData =
  Type :: string
  Code :: string
  EMetadata :: metadata
  Message :: "string option"

definition NewErrorData :: "string \<Rightarrow> string \<Rightarrow> string option \<Rightarrow> ErrorData" where
  "NewErrorData ty code message =
     \<lparr>Type = ty, Code = code, EMetadata = Map.empty, Message = message\<rparr>"

definition ErrorData_WithCode :: "ErrorData \<Rightarrow> string \<Rightarrow> ErrorData" where
  "ErrorData_WithCode e code = e\<lparr>Code := code\<rparr>"

definition errType :: string where
  "errType = ''validation''"

definition defaultCode :: string where
  "defaultCode = ''validation-failed''"

record ValidationError =
  ErrData :: ErrorData
  VTarget :: string
  Value :: any

definition NewValidationError :: "string \<Rightarrow> any \<Rightarrow> string \<Rightarrow> ValidationError" where
  "NewValidationError target v message =
     \<lparr>ErrData = NewErrorData errType defaultCode (Some message), VTarget = target, Value = v\<rparr>"

definition ValidationError_WithMetadata ::
    "ValidationError \<Rightarrow> string \<Rightarrow> any \<Rightarrow> ValidationError" where
  "ValidationError_WithMetadata ve key v =
     ve\<lparr>ErrData := (ErrData ve)\<lparr>EMetadata := (EMetadata (ErrData ve))(key \<mapsto> v)\<rparr>\<rparr>"

definition ValidationError_WithCode :: "ValidationError \<Rightarrow> string \<Rightarrow> ValidationError" where
  "ValidationError_WithCode ve code = ve\<lparr>ErrData := ErrorData_WithCode (ErrData ve) code\<rparr>"

definition ValidationError_Error :: "ValidationError \<Rightarrow> string" where
  "ValidationError_Error ve =
     (case Message (ErrData ve) of
        Some m \<Rightarrow> m
      | None \<Rightarrow> VTarget ve @ '': validation failed for '' @ [CHR 0x22]
                  @ format_v (Value ve) @ [CHR 0x22])"

definition ValidationError_Code :: "ValidationError \<Rightarrow> string" where
  "ValidationError_Code ve = Code (ErrData ve)"

record ValidationResult =
  Errors :: "ValidationError list"

definition NewValidationResult :: ValidationResult where
  "NewValidationResult = \<lparr>Errors = []\<rparr>"

definition HasErrors :: "ValidationResult \<Rightarrow> bool" where
  "HasErrors r = (length (Errors r) > 0)"

definition ValidationResult_Add :: "ValidationResult \<Rightarrow> ValidationError \<Rightarrow> ValidationResult" where
  "ValidationResult_Add r err = r\<lparr>Errors := Errors r @ [err]\<rparr>"

text \<open>
  The value of Go's \<open>error\<close> interface: a plain error made by \<open>fmt.Errorf\<close>, which holds
  only its message, or a structured validation error.
\<close>

datatype error = Errorf string | Structured ValidationError

section \<open>Validator and ValidatorChain (package validators)\<close>

text \<open>
  A validation function is a Go closure: besides returning its result it may read and
  change whatever state it closes over. The state every closure of a run can reach is the
  world \<open>'w\<close>; a closure takes the world and returns the new one with its result.
\<close>

type_synonym ('t, 'w) validate_fn = "'t \<Rightarrow> Context \<Rightarrow> 'w \<Rightarrow> ValidationError option \<times> 'w"

record ('t, 'w) Validator =
  Name :: "string option"
  Validate :: "('t, 'w) validate_fn"

definition NewValidator :: "('t, 'w) validate_fn \<Rightarrow> ('t, 'w) Validator" where
  "NewValidator validateFn = \<lparr>Name = None, Validate = validateFn\<rparr>"

definition WithName :: "('t, 'w) Validator \<Rightarrow> string \<Rightarrow> ('t, 'w) Validator" where
  "WithName v name = \<lparr>Name = Some name, Validate = Validate v\<rparr>"

definition GetName :: "('t, 'w) Validator \<Rightarrow> string" where
  "GetName v = (case Name v of Some n \<Rightarrow> n | None \<Rightarrow> ''unnamed-validator'')"

record ('t, 'w) ValidatorChain =
  validators :: "('t, 'w) Validator list"

definition NewValidatorChain :: "('t, 'w) Validator list \<Rightarrow> ('t, 'w) ValidatorChain" where
  "NewValidatorChain vs = \<lparr>validators = vs\<rparr>"

definition Add :: "('t, 'w) ValidatorChain \<Rightarrow> ('t, 'w) Validator \<Rightarrow> ('t, 'w) ValidatorChain" where
  "Add vc v = vc\<lparr>validators := validators vc @ [v]\<rparr>"

text \<open>The loop of \<open>Validate\<close>: the validators still to run, the result so far, the world.\<close>

fun Validate_loop ::
    "('t, 'w) Validator list \<Rightarrow> 't \<Rightarrow> Context \<Rightarrow> ValidationResult \<Rightarrow> 'w \<Rightarrow> ValidationResult \<times> 'w" where
  "Validate_loop [] v ctx errs w = (errs, w)"
| "Validate_loop (validator # rest) v ctx errs w =
     (case Validate validator v ctx w of
        (Some err, w') \<Rightarrow> Validate_loop rest v ctx (ValidationResult_Add errs err) w'
      | (None, w') \<Rightarrow> Validate_loop rest v ctx errs w')"

definition ValidatorChain_Validate ::
    "('t, 'w) ValidatorChain \<Rightarrow> 't \<Rightarrow> Context \<Rightarrow> 'w \<Rightarrow> ValidationResult \<times> 'w" where
  "ValidatorChain_Validate vc v ctx w = Validate_loop (validators vc) v ctx NewValidationResult w"

fun ValidateFirst_loop ::
    "('t, 'w) Validator list \<Rightarrow> 't \<Rightarrow> Context \<Rightarrow> 'w \<Rightarrow> ValidationError option \<times> 'w" where
  "ValidateFirst_loop [] v ctx w = (None, w)"
| "ValidateFirst_loop (validator # rest) v ctx w =
     (case Validate validator v ctx w of
        (Some err, w') \<Rightarrow> (Some err, w')
      | (None, w') \<Rightarrow> ValidateFirst_loop rest v ctx w')"

definition ValidatorChain_ValidateFirst ::
    "('t, 'w) ValidatorChain \<Rightarrow> 't \<Rightarrow> Context \<Rightarrow> 'w \<Rightarrow> ValidationError option \<times> 'w" where
  "ValidatorChain_ValidateFirst vc v ctx w = ValidateFirst_loop (validators vc) v ctx w"

subsection \<open>Observing invocations\<close>

text \<open>
  To observe which validators a run invokes, each validator is wrapped so that an
  invocation appends its position in the chain and the result it returned to a trace
  kept beside the world; the wrapped validator otherwise behaves as the original.
\<close>

type_synonym trace = "(nat \<times> ValidationError option) list"

definition probe :: "nat \<Rightarrow> ('t, 'w) Validator \<Rightarrow> ('t, 'w \<times> trace) Validator" where
  "probe i v =
     \<lparr>Name = Name v,
      Validate = (\<lambda>x ctx (w, tr). case Validate v x ctx w of (r, w') \<Rightarrow> (r, (w', tr @ [(i, r)])))\<rparr>"

definition probes :: "nat \<Rightarrow> ('t, 'w) Validator list \<Rightarrow> ('t, 'w \<times> trace) Validator list" where
  "probes i0 vs = map (\<lambda>(i, v). probe i v) (enumerate i0 vs)"

section \<open>String validators (package validators)\<close>

text \<open>
  \<open>strings.TrimSpace\<close> of the Go standard library removes the leading and the trailing
  white-space runes of a UTF-8 string. A string starts (ends) with a white-space rune
  exactly when it starts (ends) with the UTF-8 encoding of one of the code points of
  \<open>unicode.IsSpace\<close>, listed here; a byte that does not decode is not white space.
\<close>

definition space_runes :: "string list" where
  "space_runes =
     [[CHR 0x09], [CHR 0x0A], [CHR 0x0B], [CHR 0x0C], [CHR 0x0D], [CHR 0x20],
      [CHR 0xC2, CHR 0x85], [CHR 0xC2, CHR 0xA0],
      [CHR 0xE1, CHR 0x9A, CHR 0x80],
      [CHR 0xE2, CHR 0x80, CHR 0x80], [CHR 0xE2, CHR 0x80, CHR 0x81],
      [CHR 0xE2, CHR 0x80, CHR 0x82], [CHR 0xE2, CHR 0x80, CHR 0x83],
      [CHR 0xE2, CHR 0x80, CHR 0x84], [CHR 0xE2, CHR 0x80, CHR 0x85],
      [CHR 0xE2, CHR 0x80, CHR 0x86], [CHR 0xE2, CHR 0x80, CHR 0x87],
      [CHR 0xE2, CHR 0x80, CHR 0x88], [CHR 0xE2, CHR 0x80, CHR 0x89],
      [CHR 0xE2, CHR 0x80, CHR 0x8A],
      [CHR 0xE2, CHR 0x80, CHR 0xA8], [CHR 0xE2, CHR 0x80, CHR 0xA9],
      [CHR 0xE2, CHR 0x80, CHR 0xAF], [CHR 0xE2, CHR 0x81, CHR 0x9F],
      [CHR 0xE3, CHR 0x80, CHR 0x80]]"

definition leading_rune :: "string list \<Rightarrow> string \<Rightarrow> nat option" where
  "leading_rune encs s = map_option length (find (\<lambda>e. take (length e) s = e) encs)"

fun trim_runes :: "string list \<Rightarrow> string \<Rightarrow> string" where
  "trim_runes encs [] = []"
| "trim_runes encs (c # cs) =
     (case leading_rune encs (c # cs) of
        None \<Rightarrow> c # cs
      | Some n \<Rightarrow> trim_runes encs (drop (n - 1) cs))"

definition TrimSpace :: "string \<Rightarrow> string" where
  "TrimSpace s = rev (trim_runes (map rev space_runes) (rev (trim_runes space_runes s)))"

definition NotEmpty :: "(string, 'w) Validator" where
  "NotEmpty = NewValidator (\<lambda>v ctx w.
     (if TrimSpace v = []
      then (let msg = Target ctx @ '': must not be empty'';
                err = ValidationError_WithCode (NewValidationError (Target ctx) (AnyString v) msg)
                        ''not-empty''
            in Some err)
      else None, w))"

definition MaxLength :: "int \<Rightarrow> (string, 'w) Validator" where
  "MaxLength maxl = NewValidator (\<lambda>v ctx w.
     (if int (length v) > maxl
      then (let msg = Target ctx @ '': must be at most '' @ format_d maxl @ '' characters, got ''
                        @ format_d (int (length v));
                err = ValidationError_WithCode
                        (ValidationError_WithMetadata
                           (ValidationError_WithMetadata
                              (NewValidationError (Target ctx) (AnyString v) msg)
                              ''max'' (AnyInt maxl))
                           ''actual'' (AnyInt (int (length v))))
                        ''max-length''
            in Some err)
      else None, w))"

text \<open>
  \<open>regexp.MustCompile\<close> and \<open>MatchString\<close> belong to the Go standard library: the
  compiler is a parameter that gives the compiled expression, or nothing for a pattern
  with a syntax error (where \<open>MustCompile\<close> panics); the matcher is a parameter too.
\<close>

datatype 'a outcome = Panics | Returns 'a

definition Pattern ::
    "(string \<Rightarrow> 'r option) \<Rightarrow> ('r \<Rightarrow> string \<Rightarrow> bool) \<Rightarrow> string \<Rightarrow> (string, 'w) Validator outcome" where
  "Pattern Compile MatchString pattern =
     (case Compile pattern of
        None \<Rightarrow> Panics
      | Some regex \<Rightarrow> Returns (NewValidator (\<lambda>v ctx w.
          (if \<not> MatchString regex v
           then (let msg = Target ctx @ '': does not match required pattern'';
                     err = ValidationError_WithCode
                             (ValidationError_WithMetadata
                                (NewValidationError (Target ctx) (AnyString v) msg)
                                ''pattern'' (AnyString pattern))
                             ''pattern-mismatch''
                 in Some err)
           else None, w))))"

section \<open>Key and value adapters (internal/store/validation)\<close>

text \<open>A byte slice argument may be nil (\<open>None\<close>); \<open>len\<close> of the nil slice is 0.\<close>

type_synonym slice = "bytes option"

definition len :: "slice \<Rightarrow> int" where
  "len b = (case b of None \<Rightarrow> 0 | Some bs \<Rightarrow> int (length bs))"

record 'w StoreKeyValidator =
  chain :: "(string, 'w) ValidatorChain"

definition NewStoreKeyValidator :: "(string, 'w) Validator list \<Rightarrow> 'w StoreKeyValidator" where
  "NewStoreKeyValidator validatorList = \<lparr>chain = NewValidatorChain validatorList\<rparr>"

definition StoreKeyValidator_Validate ::
    "'w StoreKeyValidator \<Rightarrow> string \<Rightarrow> 'w \<Rightarrow> error option \<times> 'w" where
  "StoreKeyValidator_Validate skv key w =
     (let ctx = NewContext ''key'' in
      case ValidatorChain_Validate (chain skv) key ctx w of
        (result, w') \<Rightarrow>
          (if HasErrors result
           then Some (Errorf (ValidationError_Error (Errors result ! 0)))
           else None, w'))"

type_synonym 'w value_fn = "string \<Rightarrow> slice \<Rightarrow> Context \<Rightarrow> 'w \<Rightarrow> ValidationError option \<times> 'w"

record 'w StoreValueValidator =
  value_validators :: "'w value_fn list"

definition NewStoreValueValidator :: "'w value_fn list \<Rightarrow> 'w StoreValueValidator" where
  "NewStoreValueValidator validatorFuncs = \<lparr>value_validators = validatorFuncs\<rparr>"

fun value_loop :: "'w value_fn list \<Rightarrow> string \<Rightarrow> slice \<Rightarrow> Context \<Rightarrow> 'w \<Rightarrow> error option \<times> 'w" where
  "value_loop [] key v ctx w = (None, w)"
| "value_loop (validator # rest) key v ctx w =
     (case validator key v ctx w of
        (Some err, w') \<Rightarrow> (Some (Errorf (ValidationError_Error err)), w')
      | (None, w') \<Rightarrow> value_loop rest key v ctx w')"

definition StoreValueValidator_Validate ::
    "'w StoreValueValidator \<Rightarrow> string \<Rightarrow> slice \<Rightarrow> 'w \<Rightarrow> error option \<times> 'w" where
  "StoreValueValidator_Validate svv key v w =
     (let ctx = WithMetadata (NewContext ''value'') ''key'' (AnyString key)
      in value_loop (value_validators svv) key v ctx w)"

definition NonEmptyKeyValidator :: "(string, 'w) Validator" where
  "NonEmptyKeyValidator = WithName NotEmpty ''non-empty-key''"

definition KeyLengthValidator :: "int \<Rightarrow> (string, 'w) Validator" where
  "KeyLengthValidator maxLength = WithName (MaxLength maxLength) ''key-length''"

definition ValueSizeValidator :: "int \<Rightarrow> 'w value_fn" where
  "ValueSizeValidator maxSize = (\<lambda>key v ctx w.
     (if len v > maxSize
      then (let msg = ''value too large: maximum '' @ format_d maxSize @ '' bytes, got ''
                        @ format_d (len v)
            in Some (ValidationError_WithCode
                       (ValidationError_WithMetadata
                          (ValidationError_WithMetadata
                             (ValidationError_WithMetadata
                                (NewValidationError (Target ctx) (AnyInt (len v)) msg)
                                ''max-size'' (AnyInt maxSize))
                             ''actual-size'' (AnyInt (len v)))
                          ''key'' (AnyString key))
                       ''value-too-large''))
      else None, w))"

definition DefaultKeyValidators :: "(string, 'w) Validator list" where
  "DefaultKeyValidators = [NonEmptyKeyValidator, KeyLengthValidator 1024]"

definition DefaultValueValidators :: "'w value_fn list" where
  "DefaultValueValidators = [ValueSizeValidator (100 * 1024 * 1024)]"

section \<open>ValidatedStore (internal/store/validation/validated_store.go)\<close>

text \<open>
  The storage contract: every operation of the inner store is a closure over the world.
  \<open>Get\<close> returns the value (possibly nil), the found flag and the error; \<open>Scan\<close> returns
  the map (possibly nil) and the error.
\<close>

record 'w Store =
  Get :: "string \<Rightarrow> 'w \<Rightarrow> (slice \<times> bool \<times> error option) \<times> 'w"
  Put :: "string \<Rightarrow> slice \<Rightarrow> 'w \<Rightarrow> error option \<times> 'w"
  Delete :: "string \<Rightarrow> 'w \<Rightarrow> error option \<times> 'w"
  Scan :: "string \<Rightarrow> 'w \<Rightarrow> ((string \<rightharpoonup> slice) option \<times> error option) \<times> 'w"
  Close :: "'w \<Rightarrow> error option \<times> 'w"

text \<open>
  The store holds its two validators as functions (\<open>func(string) error\<close> and
  \<open>func(string, []byte) error\<close>), closures over the world like every other. The variant
  of the store built on the validation framework holds the two adapters instead and calls
  their \<open>Validate\<close> methods at the same places: it is this store holding the two
  methods, which is how \<open>NewWithDefaultValidators\<close> of that variant is written here.
\<close>

type_synonym 'w key_fn = "string \<Rightarrow> 'w \<Rightarrow> error option \<times> 'w"
type_synonym 'w value_check = "string \<Rightarrow> slice \<Rightarrow> 'w \<Rightarrow> error option \<times> 'w"

record 'w ValidatedStore =
  inner :: "'w Store"
  keyValidator :: "'w key_fn"
  valueValidator :: "'w value_check"

definition New :: "'w Store \<Rightarrow> 'w key_fn \<Rightarrow> 'w value_check \<Rightarrow> 'w ValidatedStore" where
  "New s kv vv = \<lparr>inner = s, keyValidator = kv, valueValidator = vv\<rparr>"

definition NewWithDefaultValidators :: "'w Store \<Rightarrow> 'w ValidatedStore" where
  "NewWithDefaultValidators s =
     (let kv = NewStoreKeyValidator DefaultKeyValidators;
          vv = NewStoreValueValidator DefaultValueValidators
      in New s (StoreKeyValidator_Validate kv) (StoreValueValidator_Validate vv))"

subsection \<open>The plain function validators (internal/store/validation/validators.go)\<close>

definition ValueMaxSize :: int where
  "ValueMaxSize = 100 * 1024 * 1024"

definition ValidateNonEmptyKey :: "'w key_fn" where
  "ValidateNonEmptyKey key w =
     (if key = [] then Some (Errorf ''key cannot be empty'') else None, w)"

definition ValidateKeyLength :: "int \<Rightarrow> 'w key_fn" where
  "ValidateKeyLength maxLength key w =
     (if int (length key) > maxLength
      then Some (Errorf (''key too long: maximum '' @ format_d maxLength @ '' characters, got ''
                          @ format_d (int (length key))))
      else None, w)"

definition ValidateValueSize :: "int \<Rightarrow> 'w value_check" where
  "ValidateValueSize maxSize key v w =
     (if len v > maxSize
      then Some (Errorf (''value too large: maximum '' @ format_d maxSize @ '' bytes, got ''
                          @ format_d (len v)))
      else None, w)"

fun ComposeKeyValidators :: "'w key_fn list \<Rightarrow> 'w key_fn" where
  "ComposeKeyValidators [] key w = (None, w)"
| "ComposeKeyValidators (validator # rest) key w =
     (case validator key w of
        (Some err, w') \<Rightarrow> (Some err, w')
      | (None, w') \<Rightarrow> ComposeKeyValidators rest key w')"

fun ComposeValueValidators :: "'w value_check list \<Rightarrow> 'w value_check" where
  "ComposeValueValidators [] key v w = (None, w)"
| "ComposeValueValidators (validator # rest) key v w =
     (case validator key v w of
        (Some err, w') \<Rightarrow> (Some err, w')
      | (None, w') \<Rightarrow> ComposeValueValidators rest key v w')"

text \<open>\<open>NewWithDefaultValidators\<close> of the variant of the store with plain function validators.\<close>

definition NewWithDefaultValidators_plain :: "'w Store \<Rightarrow> 'w ValidatedStore" where
  "NewWithDefaultValidators_plain s =
     (let keyValidator = ComposeKeyValidators [ValidateNonEmptyKey, ValidateKeyLength 1024];
          valueValidator = ComposeValueValidators [ValidateValueSize ValueMaxSize]
      in New s keyValidator valueValidator)"

definition ValidatedStore_Get ::
    "'w ValidatedStore \<Rightarrow> string \<Rightarrow> 'w \<Rightarrow> (slice \<times> bool \<times> error option) \<times> 'w" where
  "ValidatedStore_Get f key w =
     (case keyValidator f key w of
        (Some err, w1) \<Rightarrow> ((None, False, Some err), w1)
      | (None, w1) \<Rightarrow> Get (inner f) key w1)"

definition ValidatedStore_Put ::
    "'w ValidatedStore \<Rightarrow> string \<Rightarrow> slice \<Rightarrow> 'w \<Rightarrow> error option \<times> 'w" where
  "ValidatedStore_Put f key v w =
     (case keyValidator f key w of
        (Some err, w1) \<Rightarrow> (Some err, w1)
      | (None, w1) \<Rightarrow>
          (case valueValidator f key v w1 of
             (Some err, w2) \<Rightarrow> (Some err, w2)
           | (None, w2) \<Rightarrow> Put (inner f) key v w2))"

definition ValidatedStore_Delete ::
    "'w ValidatedStore \<Rightarrow> string \<Rightarrow> 'w \<Rightarrow> error option \<times> 'w" where
  "ValidatedStore_Delete f key w =
     (case keyValidator f key w of
        (Some err, w1) \<Rightarrow> (Some err, w1)
      | (None, w1) \<Rightarrow> Delete (inner f) key w1)"

definition ValidatedStore_Scan ::
    "'w ValidatedStore \<Rightarrow> string \<Rightarrow> 'w \<Rightarrow> ((string \<rightharpoonup> slice) option \<times> error option) \<times> 'w" where
  "ValidatedStore_Scan f prefix w = Scan (inner f) prefix w"

definition ValidatedStore_Close :: "'w ValidatedStore \<Rightarrow> 'w \<Rightarrow> error option \<times> 'w" where
  "ValidatedStore_Close f w = Close (inner f) w"

subsection \<open>A recording inner store\<close>

text \<open>
  The test double of the store tests: its world is the list of the calls it received,
  every operation appends its call and answers with a fixed result.
\<close>

datatype call = CallGet string | CallPut string slice | CallDelete string | CallScan string | CallClose

definition recording_store :: "call list Store" where
  "recording_store =
     \<lparr>Get = (\<lambda>key w. ((None, False, None), w @ [CallGet key])),
      Put = (\<lambda>key v w. (None, w @ [CallPut key v])),
      Delete = (\<lambda>key w. (None, w @ [CallDelete key])),
      Scan = (\<lambda>prefix w. ((Some Map.empty, None), w @ [CallScan prefix])),
      Close = (\<lambda>w. (None, w @ [CallClose]))\<rparr>"

subsection \<open>What a caller can observe of an error\<close>

text \<open>
  \<open>Code()\<close> is a method of the structured errors (the interface \<open>errors.Error\<close>); the
  error made by \<open>fmt.Errorf\<close> has the method \<open>Error()\<close> only.
\<close>

fun error_message :: "error \<Rightarrow> string" where
  "error_message (Errorf s) = s"
| "error_message (Structured ve) = ValidationError_Error ve"

fun error_code :: "error \<Rightarrow> string option" where
  "error_code (Errorf s) = None"
| "error_code (Structured ve) = Some (ValidationError_Code ve)"

text \<open>A validator that leaves the world as it found it.\<close>

definition leaves_world :: "('t, 'w) Validator \<Rightarrow> bool" where
  "leaves_world v = (\<forall>x ctx w. snd (Validate v x ctx w) = w)"

section \<open>ValidationError.Error\<close>

text \<open>
  C6 (as amended). \<open>Error()\<close> of a ValidationError built by \<open>NewValidationError\<close> with
  target \<open>t\<close>, value \<open>v\<close> and message \<open>m\<close> is the message \<open>m\<close> itself, with no target
  prefix; when the error holds no message (a nil \<open>Message\<close>), \<open>Error()\<close> is the target,
  a colon and a space, \<open>validation failed for\<close> and the value formatted by \<open>%v\<close> between
  double quotes.
\<close>

theorem ValidationError_Error_message:
  "ValidationError_Error (NewValidationError t v m) = m \<and>
   ValidationError_Error
     \<lparr>ErrData = \<lparr>Type = ty, Code = c, EMetadata = md, Message = None\<rparr>, VTarget = t, Value = v\<rparr>
     = t @ '': validation failed for '' @ [CHR 0x22] @ format_v v @ [CHR 0x22]"
  by (simp add: ValidationError_Error_def NewValidationError_def NewErrorData_def)

text \<open>
  C6 as stated fails: for target \<open>username\<close> and message \<open>Custom validation message\<close>
  the result is the message alone, not \<open>username: Custom validation message\<close>.
\<close>

theorem ValidationError_Error_prefix_counterexample:
  "ValidationError_Error
     (NewValidationError ''username'' (AnyString ''test'') ''Custom validation message'')
     = ''Custom validation message'' \<and>
   ValidationError_Error
     (NewValidationError ''username'' (AnyString ''test'') ''Custom validation message'')
     \<noteq> ''username: '' @ ''Custom validation message''"
  by (simp add: ValidationError_Error_def NewValidationError_def NewErrorData_def)

section \<open>ValidatorChain\<close>

lemma Validate_loop_trace:
  "Validate_loop (probes i0 vs) x ctx errs (w, tr0) = (res, (w', tr)) \<Longrightarrow>
     \<exists>tr1. tr = tr0 @ tr1 \<and> map fst tr1 = [i0..<i0 + length vs] \<and>
           Errors res = Errors errs @ List.map_filter snd tr1 \<and>
           Validate_loop vs x ctx errs w = (res, w')"
proof (induction vs arbitrary: i0 errs w tr0)
  case Nil
  then show ?case by (simp add: probes_def List.map_filter_simps)
next
  case (Cons v vs)
  obtain r w1 where r: "Validate v x ctx w = (r, w1)" by (cases "Validate v x ctx w")
  show ?case
  proof (cases r)
    case None
    with Cons.prems r have
      "Validate_loop (probes (Suc i0) vs) x ctx errs (w1, tr0 @ [(i0, None)]) = (res, (w', tr))"
      by (simp add: probes_def probe_def)
    from Cons.IH[OF this] obtain tr1 where
      "tr = (tr0 @ [(i0, None)]) @ tr1" "map fst tr1 = [Suc i0..<Suc i0 + length vs]"
      "Errors res = Errors errs @ List.map_filter snd tr1"
      "Validate_loop vs x ctx errs w1 = (res, w')" by blast
    then show ?thesis using r None
      by (intro exI[of _ "(i0, None) # tr1"]) (simp add: List.map_filter_simps upt_conv_Cons del: upt_Suc)
  next
    case (Some e)
    with Cons.prems r have
      "Validate_loop (probes (Suc i0) vs) x ctx (ValidationResult_Add errs e) (w1, tr0 @ [(i0, Some e)]) = (res, (w', tr))"
      by (simp add: probes_def probe_def)
    from Cons.IH[OF this] obtain tr1 where
      "tr = (tr0 @ [(i0, Some e)]) @ tr1" "map fst tr1 = [Suc i0..<Suc i0 + length vs]"
      "Errors res = Errors (ValidationResult_Add errs e) @ List.map_filter snd tr1"
      "Validate_loop vs x ctx (ValidationResult_Add errs e) w1 = (res, w')" by blast
    then show ?thesis using r Some
      by (intro exI[of _ "(i0, Some e) # tr1"])
         (simp add: List.map_filter_simps upt_conv_Cons ValidationResult_Add_def del: upt_Suc)
  qed
qed

lemma ValidateFirst_loop_trace:
  "ValidateFirst_loop (probes i0 vs) x ctx (w, tr0) = (r, (w', tr)) \<Longrightarrow>
     \<exists>tr1. tr = tr0 @ tr1 \<and> ValidateFirst_loop vs x ctx w = (r, w') \<and>
       (case r of
          None \<Rightarrow> map fst tr1 = [i0..<i0 + length vs] \<and> (\<forall>p \<in> set tr1. snd p = None)
        | Some e \<Rightarrow> \<exists>k < length vs. map fst tr1 = [i0..<i0 + Suc k] \<and>
                     (\<forall>p \<in> set (butlast tr1). snd p = None) \<and> snd (last tr1) = Some e)"
proof (induction vs arbitrary: i0 w tr0)
  case Nil
  then show ?case by (simp add: probes_def)
next
  case (Cons v vs)
  obtain r1 w1 where r: "Validate v x ctx w = (r1, w1)" by (cases "Validate v x ctx w")
  show ?case
  proof (cases r1)
    case None
    with Cons.prems r have
      "ValidateFirst_loop (probes (Suc i0) vs) x ctx (w1, tr0 @ [(i0, None)]) = (r, (w', tr))"
      by (simp add: probes_def probe_def)
    from Cons.IH[OF this] obtain tr1 where t:
      "tr = (tr0 @ [(i0, None)]) @ tr1" "ValidateFirst_loop vs x ctx w1 = (r, w')"
      "(case r of
          None \<Rightarrow> map fst tr1 = [Suc i0..<Suc i0 + length vs] \<and> (\<forall>p \<in> set tr1. snd p = None)
        | Some e \<Rightarrow> \<exists>k < length vs. map fst tr1 = [Suc i0..<Suc i0 + Suc k] \<and>
                     (\<forall>p \<in> set (butlast tr1). snd p = None) \<and> snd (last tr1) = Some e)" by blast
    show ?thesis
    proof (cases r)
      case rn: None
      with t r None show ?thesis
        by (intro exI[of _ "(i0, None) # tr1"]) (simp add: upt_conv_Cons del: upt_Suc)
    next
      case (Some e)
      with t obtain k where k: "k < length vs" "map fst tr1 = [Suc i0..<Suc i0 + Suc k]"
         "\<forall>p \<in> set (butlast tr1). snd p = None" "snd (last tr1) = Some e" by auto
      then have ne: "tr1 \<noteq> []" by auto
      show ?thesis using t(1,2) r None Some k ne
        by (intro exI[of _ "(i0, None) # tr1"]) (auto simp: upt_conv_Cons simp del: upt_Suc intro!: exI[of _ "Suc k"])
    qed
  next
    case (Some e)
    with Cons.prems r have "r = Some e" "w' = w1" "tr = tr0 @ [(i0, Some e)]"
      by (auto simp add: probes_def probe_def)
    then show ?thesis using r Some
      by (intro exI[of _ "[(i0, Some e)]"]) (auto intro!: exI[of _ 0])
  qed
qed


text \<open>
  C3. \<open>ValidatorChain.Validate\<close> invokes every validator of the chain once, in add-order,
  and its result lists exactly the errors the failing validators returned, in that order:
  run on the probed chain from the empty trace, the trace holds the positions
  \<open>0, 1, ..., n - 1\<close> in this order, the error list is the list of the errors recorded
  in the trace, and result and world are those of the run on the chain itself.
\<close>

theorem ValidatorChain_Validate_all_in_order:
  "ValidatorChain_Validate (NewValidatorChain (probes 0 vs)) x ctx (w, []) = (res, (w', tr)) \<Longrightarrow>
     map fst tr = [0..<length vs] \<and>
     Errors res = List.map_filter snd tr \<and>
     ValidatorChain_Validate (NewValidatorChain vs) x ctx w = (res, w')"
  using Validate_loop_trace[of 0 vs x ctx NewValidationResult w "[]" res w' tr]
  by (auto simp: ValidatorChain_Validate_def NewValidatorChain_def NewValidationResult_def)

text \<open>
  The example of the specification: a chain of three validators on an input that fails
  the first and the third only.
\<close>

lemmas eval_validators =
  ValidatorChain_Validate_def ValidatorChain_ValidateFirst_def NewValidatorChain_def
  NewValidationResult_def probes_def probe_def NotEmpty_def MaxLength_def NewValidator_def
  WithName_def TrimSpace_def NewContext_def ValidationResult_Add_def
  ValidationError_WithCode_def ValidationError_WithMetadata_def NewValidationError_def
  ErrorData_WithCode_def NewErrorData_def Let_def List.map_filter_simps

theorem ValidatorChain_Validate_all_in_order_witness:
  "ValidatorChain_Validate
     (NewValidatorChain (probes 0 [NotEmpty, MaxLength 5, WithName NotEmpty ''again'']))
     [] (NewContext ''f'') ((), [])
   = (\<lparr>Errors = [ValidationError_WithCode
                    (NewValidationError ''f'' (AnyString []) ''f: must not be empty'') ''not-empty'',
                  ValidationError_WithCode
                    (NewValidationError ''f'' (AnyString []) ''f: must not be empty'') ''not-empty'']\<rparr>,
      ((), [(0, Some (ValidationError_WithCode
                    (NewValidationError ''f'' (AnyString []) ''f: must not be empty'') ''not-empty'')),
            (1, None),
            (2, Some (ValidationError_WithCode
                    (NewValidationError ''f'' (AnyString []) ''f: must not be empty'') ''not-empty''))]))
   \<and> map fst [(0::nat, Some (ValidationError_WithCode
                    (NewValidationError ''f'' (AnyString []) ''f: must not be empty'') ''not-empty'')),
            (1, None),
            (2, Some (ValidationError_WithCode
                    (NewValidationError ''f'' (AnyString []) ''f: must not be empty'') ''not-empty''))]
       = [0..<length [NotEmpty :: (string, unit) Validator, MaxLength 5, WithName NotEmpty ''again'']]"
proof -
  let ?e = "ValidationError_WithCode
              (NewValidationError ''f'' (AnyString []) ''f: must not be empty'') ''not-empty''"
  have h: "ValidatorChain_Validate
     (NewValidatorChain (probes 0 [NotEmpty, MaxLength 5, WithName NotEmpty ''again'']))
     [] (NewContext ''f'') ((), [])
   = (\<lparr>Errors = [?e, ?e]\<rparr>, ((), [(0, Some ?e), (1, None), (2, Some ?e)]))"
    by (simp add: eval_validators)
  from ValidatorChain_Validate_all_in_order[OF h] h show ?thesis by simp
qed

text \<open>
  C4. \<open>ValidatorChain.ValidateFirst\<close> invokes the validators in add-order and stops at
  the first error: when it returns an error, the trace of the probed chain holds the
  positions \<open>0, ..., k\<close> only, every validator before \<open>k\<close> passed, the validator at
  \<open>k\<close> returned the error, and no validator after \<open>k\<close> was invoked; when it returns
  nil, every validator was invoked and passed.
\<close>

theorem ValidatorChain_ValidateFirst_short_circuit:
  "ValidatorChain_ValidateFirst (NewValidatorChain (probes 0 vs)) x ctx (w, []) = (r, (w', tr)) \<Longrightarrow>
     ValidatorChain_ValidateFirst (NewValidatorChain vs) x ctx w = (r, w') \<and>
     (case r of
        None \<Rightarrow> map fst tr = [0..<length vs] \<and> (\<forall>p \<in> set tr. snd p = None)
      | Some e \<Rightarrow> \<exists>k < length vs. map fst tr = [0..<Suc k] \<and>
                   (\<forall>p \<in> set (butlast tr). snd p = None) \<and> snd (last tr) = Some e)"
  using ValidateFirst_loop_trace[of 0 vs x ctx w "[]" r w' tr]
  by (auto simp: ValidatorChain_ValidateFirst_def NewValidatorChain_def simp del: upt_Suc
        split: option.splits)

theorem ValidatorChain_ValidateFirst_short_circuit_witness:
  "ValidatorChain_ValidateFirst
     (NewValidatorChain (probes 0 [NotEmpty, MaxLength 5, WithName NotEmpty ''again'']))
     [] (NewContext ''f'') ((), [])
   = (Some (ValidationError_WithCode
              (NewValidationError ''f'' (AnyString []) ''f: must not be empty'') ''not-empty''),
      ((), [(0, Some (ValidationError_WithCode
              (NewValidationError ''f'' (AnyString []) ''f: must not be empty'') ''not-empty''))]))
   \<and> ValidatorChain_ValidateFirst
     (NewValidatorChain [NotEmpty, MaxLength 5, WithName NotEmpty ''again''])
     [] (NewContext ''f'') ()
   = (Some (ValidationError_WithCode
              (NewValidationError ''f'' (AnyString []) ''f: must not be empty'') ''not-empty''), ())"
proof -
  let ?e = "ValidationError_WithCode
              (NewValidationError ''f'' (AnyString []) ''f: must not be empty'') ''not-empty''"
  have h: "ValidatorChain_ValidateFirst
     (NewValidatorChain (probes 0 [NotEmpty, MaxLength 5, WithName NotEmpty ''again'']))
     [] (NewContext ''f'') ((), [])
   = (Some ?e, ((), [(0, Some ?e)]))"
    by (simp add: eval_validators)
  from ValidatorChain_ValidateFirst_short_circuit[OF h] h show ?thesis by simp
qed

section \<open>The key adapter\<close>

lemma Validate_loop_keeps_errors:
  "\<exists>ys. Errors (fst (Validate_loop vs x ctx errs w)) = Errors errs @ ys"
proof (induction vs arbitrary: errs w)
  case Nil
  then show ?case by simp
next
  case (Cons v vs)
  obtain r w1 where r: "Validate v x ctx w = (r, w1)" by (cases "Validate v x ctx w")
  show ?case
  proof (cases r)
    case None
    with r Cons.IH[where errs=errs and w=w1] show ?thesis by simp
  next
    case (Some e)
    with r Cons.IH[where errs="ValidationResult_Add errs e" and w=w1] show ?thesis
      by (auto simp: ValidationResult_Add_def)
  qed
qed

lemma Validate_loop_first_error:
  "case fst (ValidateFirst_loop vs x ctx w) of
     None \<Rightarrow> Errors (fst (Validate_loop vs x ctx errs w)) = Errors errs
   | Some e \<Rightarrow> \<exists>ys. Errors (fst (Validate_loop vs x ctx errs w)) = Errors errs @ e # ys"
proof (induction vs arbitrary: errs w)
  case Nil
  then show ?case by simp
next
  case (Cons v vs)
  obtain r w1 where r: "Validate v x ctx w = (r, w1)" by (cases "Validate v x ctx w")
  show ?case
  proof (cases r)
    case None
    with r Cons.IH[where errs=errs and w=w1] show ?thesis by (simp split: option.splits)
  next
    case (Some e)
    from Validate_loop_keeps_errors[where vs=vs and x=x and ctx=ctx and errs="ValidationResult_Add errs e" and w=w1]
    obtain ys where "Errors (fst (Validate_loop vs x ctx (ValidationResult_Add errs e) w1))
                       = Errors (ValidationResult_Add errs e) @ ys" by blast
    with r Some show ?thesis by (simp add: ValidationResult_Add_def)
  qed
qed

lemma key_adapter_first:
  "fst (StoreKeyValidator_Validate skv key w) =
     (case fst (ValidatorChain_ValidateFirst (chain skv) key (NewContext ''key'') w) of
        None \<Rightarrow> None
      | Some e \<Rightarrow> Some (Errorf (ValidationError_Error e)))"
  using Validate_loop_first_error[where vs="validators (chain skv)" and x=key and ctx="NewContext ''key''" and w=w and errs=NewValidationResult]
  by (auto simp: StoreKeyValidator_Validate_def ValidatorChain_Validate_def
        ValidatorChain_ValidateFirst_def HasErrors_def NewValidationResult_def
        split: option.splits prod.splits)

lemma Validate_loop_world:
  "\<forall>v \<in> set vs. leaves_world v \<Longrightarrow> snd (Validate_loop vs x ctx errs w) = w"
proof (induction vs arbitrary: errs w)
  case Nil
  then show ?case by simp
next
  case (Cons v vs)
  obtain r w1 where r: "Validate v x ctx w = (r, w1)" by (cases "Validate v x ctx w")
  from Cons.prems have "snd (Validate v x ctx w) = w" by (simp add: leaves_world_def)
  with r have "w1 = w" by simp
  with r Cons show ?case by (cases r) simp_all
qed

lemma ValidateFirst_loop_world:
  "\<forall>v \<in> set vs. leaves_world v \<Longrightarrow> snd (ValidateFirst_loop vs x ctx w) = w"
proof (induction vs arbitrary: w)
  case Nil
  then show ?case by simp
next
  case (Cons v vs)
  obtain r w1 where r: "Validate v x ctx w = (r, w1)" by (cases "Validate v x ctx w")
  from Cons.prems have "snd (Validate v x ctx w) = w" by (simp add: leaves_world_def)
  with r have "w1 = w" by simp
  with r Cons show ?case by (cases r) simp_all
qed

lemma leaves_world_defaults: "\<forall>v \<in> set DefaultKeyValidators. leaves_world v"
  by (simp add: DefaultKeyValidators_def NonEmptyKeyValidator_def KeyLengthValidator_def
        leaves_world_def WithName_def NotEmpty_def MaxLength_def NewValidator_def)

text \<open>
  C9. The key adapter returns nil exactly when \<open>ValidateFirst\<close> of its chain returns nil
  on the same key, context and world, and otherwise the plain error whose message is
  \<open>Error()\<close> of the error \<open>ValidateFirst\<close> returns. The adapter runs \<open>Validate\<close>, which
  invokes every validator; when the validators leave the world unchanged, as the
  specification requires of them, the world after the adapter is that after
  \<open>ValidateFirst\<close> too.
\<close>

theorem StoreKeyValidator_Validate_as_ValidateFirst:
  "fst (StoreKeyValidator_Validate skv key w) =
     (case fst (ValidatorChain_ValidateFirst (chain skv) key (NewContext ''key'') w) of
        None \<Rightarrow> None
      | Some e \<Rightarrow> Some (Errorf (ValidationError_Error e))) \<and>
   ((\<forall>v \<in> set (validators (chain skv)). leaves_world v) \<longrightarrow>
      snd (StoreKeyValidator_Validate skv key w) =
      snd (ValidatorChain_ValidateFirst (chain skv) key (NewContext ''key'') w))"
proof -
  have "snd (StoreKeyValidator_Validate skv key w) =
        snd (Validate_loop (validators (chain skv)) key (NewContext ''key'') NewValidationResult w)"
    by (simp add: StoreKeyValidator_Validate_def ValidatorChain_Validate_def split: prod.splits)
  then show ?thesis
    by (simp add: key_adapter_first Validate_loop_world ValidateFirst_loop_world
          ValidatorChain_ValidateFirst_def)
qed

lemmas eval_store =
  StoreKeyValidator_Validate_def StoreValueValidator_Validate_def NewStoreKeyValidator_def
  NewStoreValueValidator_def DefaultKeyValidators_def DefaultValueValidators_def
  NonEmptyKeyValidator_def KeyLengthValidator_def ValueSizeValidator_def
  NewWithDefaultValidators_def New_def HasErrors_def WithMetadata_def len_def
  ValidationError_Error_def ValidationError_Code_def
  ValidatedStore_Get_def ValidatedStore_Put_def ValidatedStore_Delete_def
  ValidatedStore_Scan_def recording_store_def

theorem StoreKeyValidator_Validate_as_ValidateFirst_witness:
  "validators (chain (NewStoreKeyValidator DefaultKeyValidators :: unit StoreKeyValidator))
     = [NonEmptyKeyValidator, KeyLengthValidator 1024] \<and>
   leaves_world (NonEmptyKeyValidator :: (string, unit) Validator) \<and>
   leaves_world (KeyLengthValidator 1024 :: (string, unit) Validator) \<and>
   StoreKeyValidator_Validate (NewStoreKeyValidator DefaultKeyValidators) [] ()
     = (Some (Errorf ''key: must not be empty''), ()) \<and>
   map_option ValidationError_Error
     (fst (ValidatorChain_ValidateFirst (chain (NewStoreKeyValidator DefaultKeyValidators)) []
        (NewContext ''key'') ()))
     = Some ''key: must not be empty''"
proof -
  have c: "validators (chain (NewStoreKeyValidator DefaultKeyValidators :: unit StoreKeyValidator))
     = [NonEmptyKeyValidator, KeyLengthValidator 1024]"
    by (simp add: NewStoreKeyValidator_def NewValidatorChain_def DefaultKeyValidators_def)
  have l: "leaves_world (NonEmptyKeyValidator :: (string, unit) Validator)"
          "leaves_world (KeyLengthValidator 1024 :: (string, unit) Validator)"
    using leaves_world_defaults[where 'a = unit] by (simp_all add: DefaultKeyValidators_def)
  have p: "\<forall>v \<in> set (validators (chain (NewStoreKeyValidator DefaultKeyValidators :: unit StoreKeyValidator))).
       leaves_world v"
    using c l by simp
  have e: "StoreKeyValidator_Validate (NewStoreKeyValidator DefaultKeyValidators) [] ()
     = (Some (Errorf ''key: must not be empty''), ())"
    by (simp add: eval_store eval_validators)
  from StoreKeyValidator_Validate_as_ValidateFirst
         [of "NewStoreKeyValidator DefaultKeyValidators :: unit StoreKeyValidator" "[]" "()"] p e
  have "map_option ValidationError_Error
     (fst (ValidatorChain_ValidateFirst (chain (NewStoreKeyValidator DefaultKeyValidators)) []
        (NewContext ''key'') ()))
     = Some ''key: must not be empty''"
    by (auto split: option.splits)
  with c l e show ?thesis by simp
qed

section \<open>ValidatedStore\<close>

text \<open>
  C8. \<open>ValidatedStore.Scan\<close> validates nothing: for every inner store, every pair of
  validators and every prefix, the empty one included, its result and the world it leaves
  are exactly those of the inner store's \<open>Scan\<close> on that prefix; on the recording store
  the only call made is the inner \<open>Scan\<close>.
\<close>

theorem ValidatedStore_Scan_delegates:
  "ValidatedStore_Scan (New s kv vv) prefix w = Scan s prefix w \<and>
   ValidatedStore_Scan (NewWithDefaultValidators s) prefix w = Scan s prefix w \<and>
   ValidatedStore_Scan (NewWithDefaultValidators s) [] w = Scan s [] w \<and>
   ValidatedStore_Scan (NewWithDefaultValidators recording_store) [] []
     = ((Some Map.empty, None), [CallScan []])"
  by (simp add: ValidatedStore_Scan_def New_def NewWithDefaultValidators_def recording_store_def)

text \<open>
  C1. When the key validator fails, \<open>Get\<close> returns (nil, false, that error), \<open>Put\<close> and
  \<open>Delete\<close> return that error, and the world is the one the key validator left: neither
  the value validator nor the inner store ran. When the key passes and the value
  validator fails, \<open>Put\<close> returns that error and the world is the one the value validator
  left: the inner store did not run. When the key validator is the adapter of a chain,
  the error is the plain form of the first error of the chain.
\<close>

theorem ValidatedStore_validation_failure:
  "(keyValidator f key w = (Some err, w1) \<longrightarrow>
      ValidatedStore_Get f key w = ((None, False, Some err), w1) \<and>
      ValidatedStore_Put f key v w = (Some err, w1) \<and>
      ValidatedStore_Delete f key w = (Some err, w1)) \<and>
   (keyValidator f key w = (None, w1) \<and> valueValidator f key v w1 = (Some err, w2) \<longrightarrow>
      ValidatedStore_Put f key v w = (Some err, w2)) \<and>
   (keyValidator f = StoreKeyValidator_Validate skv \<and> keyValidator f key w = (Some err, w1) \<longrightarrow>
      (\<exists>e. fst (ValidatorChain_ValidateFirst (chain skv) key (NewContext ''key'') w) = Some e \<and>
           err = Errorf (ValidationError_Error e)))"
proof -
  have "\<exists>e. fst (ValidatorChain_ValidateFirst (chain skv) key (NewContext ''key'') w) = Some e \<and>
            err = Errorf (ValidationError_Error e)"
    if "StoreKeyValidator_Validate skv key w = (Some err, w1)"
    using key_adapter_first[of skv key w] that by (auto split: option.splits)
  then have "keyValidator f = StoreKeyValidator_Validate skv \<and>
             keyValidator f key w = (Some err, w1) \<longrightarrow>
      (\<exists>e. fst (ValidatorChain_ValidateFirst (chain skv) key (NewContext ''key'') w) = Some e \<and>
           err = Errorf (ValidationError_Error e))"
    by metis
  then show ?thesis
    by (simp add: ValidatedStore_Get_def ValidatedStore_Put_def ValidatedStore_Delete_def)
qed

theorem ValidatedStore_validation_failure_witness:
  "keyValidator (NewWithDefaultValidators recording_store) [] []
     = (Some (Errorf ''key: must not be empty''), []) \<and>
   keyValidator (NewWithDefaultValidators recording_store)
     = StoreKeyValidator_Validate (NewStoreKeyValidator DefaultKeyValidators) \<and>
   ValidatedStore_Get (NewWithDefaultValidators recording_store) [] []
     = ((None, False, Some (Errorf ''key: must not be empty'')), []) \<and>
   ValidatedStore_Put (NewWithDefaultValidators recording_store) [] (Some [120]) []
     = (Some (Errorf ''key: must not be empty''), []) \<and>
   ValidatedStore_Delete (NewWithDefaultValidators recording_store) [] []
     = (Some (Errorf ''key: must not be empty''), []) \<and>
   map_option ValidationError_Error
     (fst (ValidatorChain_ValidateFirst (chain (NewStoreKeyValidator DefaultKeyValidators)) []
        (NewContext ''key'') ([] :: call list)))
     = Some ''key: must not be empty'' \<and>
   keyValidator
     (New recording_store (StoreKeyValidator_Validate (NewStoreKeyValidator DefaultKeyValidators))
        (StoreValueValidator_Validate (NewStoreValueValidator [ValueSizeValidator 2])))
     ''k'' [] = (None, []) \<and>
   valueValidator
     (New recording_store (StoreKeyValidator_Validate (NewStoreKeyValidator DefaultKeyValidators))
        (StoreValueValidator_Validate (NewStoreValueValidator [ValueSizeValidator 2])))
     ''k'' (Some [1, 2, 3]) []
     = (Some (Errorf ''value too large: maximum 2 bytes, got 3''), []) \<and>
   ValidatedStore_Put
     (New recording_store (StoreKeyValidator_Validate (NewStoreKeyValidator DefaultKeyValidators))
        (StoreValueValidator_Validate (NewStoreValueValidator [ValueSizeValidator 2])))
     ''k'' (Some [1, 2, 3]) []
     = (Some (Errorf ''value too large: maximum 2 bytes, got 3''), [])"
proof -
  let ?skv = "NewStoreKeyValidator DefaultKeyValidators :: call list StoreKeyValidator"
  let ?f = "NewWithDefaultValidators recording_store"
  let ?g = "New recording_store (StoreKeyValidator_Validate ?skv)
              (StoreValueValidator_Validate (NewStoreValueValidator [ValueSizeValidator 2]))"
  have a: "keyValidator ?f = StoreKeyValidator_Validate ?skv"
    by (simp add: NewWithDefaultValidators_def New_def)
  have k: "keyValidator ?f [] [] = (Some (Errorf ''key: must not be empty''), [])"
    unfolding a by (simp add: eval_store eval_validators)
  have k2: "keyValidator ?g ''k'' [] = (None, [])"
    by (simp add: eval_store eval_validators leading_rune_def space_runes_def)
  have v2: "valueValidator ?g ''k'' (Some [1, 2, 3]) []
             = (Some (Errorf ''value too large: maximum 2 bytes, got 3''), [])"
    by (simp add: eval_store eval_validators format_d_def show_nat.simps digit_char_def)
  note t1 = ValidatedStore_validation_failure
         [of ?f "[]" "[]" "Errorf ''key: must not be empty''" "[]" "Some [120]" "[]" ?skv]
  note t2 = ValidatedStore_validation_failure
         [of ?g "''k''" "[]" "Errorf ''value too large: maximum 2 bytes, got 3''" "[]"
             "Some [1, 2, 3]" "[]" ?skv]
  from t1 a k have c1:
    "ValidatedStore_Get ?f [] [] = ((None, False, Some (Errorf ''key: must not be empty'')), [])"
    "ValidatedStore_Put ?f [] (Some [120]) [] = (Some (Errorf ''key: must not be empty''), [])"
    "ValidatedStore_Delete ?f [] [] = (Some (Errorf ''key: must not be empty''), [])"
    by simp_all
  from t1 a k have "\<exists>e. fst (ValidatorChain_ValidateFirst (chain ?skv) [] (NewContext ''key'') [])
                          = Some e \<and>
                        Errorf ''key: must not be empty'' = Errorf (ValidationError_Error e)"
    by simp
  then have c2: "map_option ValidationError_Error
     (fst (ValidatorChain_ValidateFirst (chain ?skv) [] (NewContext ''key'') []))
     = Some ''key: must not be empty''"
    by auto
  from t2 k2 v2 have c3: "ValidatedStore_Put ?g ''k'' (Some [1, 2, 3]) []
     = (Some (Errorf ''value too large: maximum 2 bytes, got 3''), [])"
    by simp
  from a k c1 c2 k2 v2 c3 show ?thesis by simp
qed

section \<open>The default configuration\<close>

lemma trim_runes_spaces: "trim_runes space_runes (replicate n (CHR 0x20)) = []"
proof (induction n)
  case 0
  then show ?case by simp
next
  case (Suc n)
  have "leading_rune space_runes (CHR 0x20 # replicate n (CHR 0x20)) = Some 1"
    by (simp add: leading_rune_def space_runes_def)
  with Suc show ?case by simp
qed

lemma TrimSpace_spaces: "TrimSpace (replicate n (CHR 0x20)) = []"
  by (simp add: TrimSpace_def trim_runes_spaces)

lemma TrimSpace_empty: "TrimSpace [] = []"
  by (simp add: TrimSpace_def)

lemma TrimSpace_letters: "TrimSpace (replicate (Suc n) (CHR ''a'')) = replicate (Suc n) (CHR ''a'')"
proof -
  have l: "leading_rune space_runes (CHR ''a'' # cs) = None" for cs
    by (simp add: leading_rune_def space_runes_def)
  have r: "leading_rune (map rev space_runes) (CHR ''a'' # cs) = None" for cs
    by (simp add: leading_rune_def space_runes_def)
  have t1: "trim_runes space_runes (replicate (Suc n) (CHR ''a'')) = replicate (Suc n) (CHR ''a'')"
    using l by simp
  have t2: "trim_runes (map rev space_runes) (replicate (Suc n) (CHR ''a''))
              = replicate (Suc n) (CHR ''a'')"
    using r by simp
  have "TrimSpace (replicate (Suc n) (CHR ''a''))
          = rev (trim_runes (map rev space_runes) (rev (replicate (Suc n) (CHR ''a''))))"
    unfolding TrimSpace_def t1 ..
  also have "\<dots> = rev (trim_runes (map rev space_runes) (replicate (Suc n) (CHR ''a'')))"
    by (simp only: rev_replicate)
  also have "\<dots> = replicate (Suc n) (CHR ''a'')"
    unfolding t2 by (simp only: rev_replicate)
  finally show ?thesis .
qed


lemma default_key_adapter:
  "StoreKeyValidator_Validate (NewStoreKeyValidator DefaultKeyValidators) key w =
     (if TrimSpace key = [] then Some (Errorf ''key: must not be empty'')
      else if int (length key) > 1024
        then Some (Errorf (''key: must be at most '' @ format_d 1024 @ '' characters, got ''
                            @ format_d (int (length key))))
        else None, w)"
  by (simp add: eval_store eval_validators del: TrimSpace_def)

lemma default_value_adapter:
  "StoreValueValidator_Validate (NewStoreValueValidator DefaultValueValidators) key v w =
     (if len v > 100 * 1024 * 1024
      then Some (Errorf (''value too large: maximum '' @ format_d (100 * 1024 * 1024)
                          @ '' bytes, got '' @ format_d (len v)))
      else None, w)"
  by (simp add: StoreValueValidator_Validate_def NewStoreValueValidator_def
        DefaultValueValidators_def ValueSizeValidator_def ValidationError_Error_def
        ValidationError_WithCode_def ValidationError_WithMetadata_def NewValidationError_def
        ErrorData_WithCode_def NewErrorData_def Let_def)

lemma default_Put:
  "ValidatedStore_Put (NewWithDefaultValidators s) key v w =
     (if TrimSpace key = [] then (Some (Errorf ''key: must not be empty''), w)
      else if int (length key) > 1024
        then (Some (Errorf (''key: must be at most '' @ format_d 1024 @ '' characters, got ''
                            @ format_d (int (length key)))), w)
      else if len v > 100 * 1024 * 1024
        then (Some (Errorf (''value too large: maximum '' @ format_d (100 * 1024 * 1024)
                          @ '' bytes, got '' @ format_d (len v))), w)
      else Put s key v w)"
  using default_key_adapter[of key w] default_value_adapter[of key v w]
  by (simp add: ValidatedStore_Put_def NewWithDefaultValidators_def New_def)


text \<open>The store of the variant with plain function validators behaves alike, its non-empty
  check being \<open>key == ""\<close>.\<close>

lemma plain_default_Put:
  "ValidatedStore_Put (NewWithDefaultValidators_plain s) key v w =
     (if key = [] then (Some (Errorf ''key cannot be empty''), w)
      else if int (length key) > 1024
        then (Some (Errorf (''key too long: maximum '' @ format_d 1024 @ '' characters, got ''
                            @ format_d (int (length key)))), w)
      else if len v > 100 * 1024 * 1024
        then (Some (Errorf (''value too large: maximum '' @ format_d (100 * 1024 * 1024)
                          @ '' bytes, got '' @ format_d (len v))), w)
      else Put s key v w)"
  by (simp add: ValidatedStore_Put_def NewWithDefaultValidators_plain_def New_def
        ValidateNonEmptyKey_def ValidateKeyLength_def ValidateValueSize_def ValueMaxSize_def)

lemmas eval_errors =
  MaxLength_def NotEmpty_def NewValidator_def ValueSizeValidator_def
  ValidationError_Error_def ValidationError_Code_def ValidationError_WithCode_def
  ValidationError_WithMetadata_def NewValidationError_def ErrorData_WithCode_def
  NewErrorData_def NewContext_def WithMetadata_def Let_def

text \<open>
  C2 (as amended). For the store built by \<open>NewWithDefaultValidators\<close>, in its variant on
  the validation framework and in its variant on plain function validators, \<open>Put\<close> is the
  inner store's \<open>Put\<close> exactly when the key passes the non-empty check (on the framework
  \<open>strings.TrimSpace\<close> leaves something, with plain functions the key is not \<open>""\<close>), the
  key has at most 1024 bytes and the value at most 100 MiB; otherwise it returns a plain
  error and leaves the world as it was, the inner store not being invoked. A key that
  fails the non-empty check is rejected with the error of the non-empty rule, whatever its
  length and whatever the value; a key of more than 1024 bytes that passes the non-empty
  check is rejected with the error of the length rule (code \<open>max-length\<close> on the
  framework); a value of more than 100 MiB, under a key that passes both key rules, is
  rejected with the error of the value size rule (code \<open>value-too-large\<close> on the
  framework).
\<close>

theorem NewWithDefaultValidators_Put:
  "(TrimSpace key \<noteq> [] \<and> length key \<le> 1024 \<and> len v \<le> 100 * 1024 * 1024 \<longrightarrow>
      ValidatedStore_Put (NewWithDefaultValidators s) key v w = Put s key v w) \<and>
   (\<not> (TrimSpace key \<noteq> [] \<and> length key \<le> 1024 \<and> len v \<le> 100 * 1024 * 1024) \<longrightarrow>
      (\<exists>msg. ValidatedStore_Put (NewWithDefaultValidators s) key v w = (Some (Errorf msg), w))) \<and>
   (TrimSpace key = [] \<longrightarrow>
      (\<exists>e. Validate NotEmpty key (NewContext ''key'') w = (Some e, w) \<and>
           ValidationError_Code e = ''not-empty'' \<and>
           ValidatedStore_Put (NewWithDefaultValidators s) key v w
             = (Some (Errorf (ValidationError_Error e)), w))) \<and>
   (TrimSpace key \<noteq> [] \<and> length key > 1024 \<longrightarrow>
      (\<exists>e. Validate (MaxLength 1024) key (NewContext ''key'') w = (Some e, w) \<and>
           ValidationError_Code e = ''max-length'' \<and>
           ValidatedStore_Put (NewWithDefaultValidators s) key v w
             = (Some (Errorf (ValidationError_Error e)), w))) \<and>
   (TrimSpace key \<noteq> [] \<and> length key \<le> 1024 \<and> len v > 100 * 1024 * 1024 \<longrightarrow>
      (\<exists>e. ValueSizeValidator (100 * 1024 * 1024) key v
             (WithMetadata (NewContext ''value'') ''key'' (AnyString key)) w = (Some e, w) \<and>
           ValidationError_Code e = ''value-too-large'' \<and>
           ValidatedStore_Put (NewWithDefaultValidators s) key v w
             = (Some (Errorf (ValidationError_Error e)), w))) \<and>
   (key \<noteq> [] \<and> length key \<le> 1024 \<and> len v \<le> 100 * 1024 * 1024 \<longrightarrow>
      ValidatedStore_Put (NewWithDefaultValidators_plain s) key v w = Put s key v w) \<and>
   (\<not> (key \<noteq> [] \<and> length key \<le> 1024 \<and> len v \<le> 100 * 1024 * 1024) \<longrightarrow>
      (\<exists>msg. ValidatedStore_Put (NewWithDefaultValidators_plain s) key v w
               = (Some (Errorf msg), w))) \<and>
   (key = [] \<longrightarrow>
      (\<exists>err. ValidateNonEmptyKey key w = (Some err, w) \<and>
             ValidatedStore_Put (NewWithDefaultValidators_plain s) key v w = (Some err, w))) \<and>
   (key \<noteq> [] \<and> length key > 1024 \<longrightarrow>
      (\<exists>err. ValidateKeyLength 1024 key w = (Some err, w) \<and>
             ValidatedStore_Put (NewWithDefaultValidators_plain s) key v w = (Some err, w))) \<and>
   (key \<noteq> [] \<and> length key \<le> 1024 \<and> len v > 100 * 1024 * 1024 \<longrightarrow>
      (\<exists>err. ValidateValueSize ValueMaxSize key v w = (Some err, w) \<and>
             ValidatedStore_Put (NewWithDefaultValidators_plain s) key v w = (Some err, w)))"
  by (simp add: default_Put plain_default_Put eval_errors ValidateNonEmptyKey_def
        ValidateKeyLength_def ValidateValueSize_def ValueMaxSize_def)

theorem NewWithDefaultValidators_Put_witness:
  "(TrimSpace ''user:1'' \<noteq> [] \<and> ''user:1'' \<noteq> [] \<and> length ''user:1'' \<le> 1024 \<and>
      len (Some [100, 97, 116, 97]) \<le> 100 * 1024 * 1024) \<and>
   ValidatedStore_Put (NewWithDefaultValidators recording_store) ''user:1''
      (Some [100, 97, 116, 97]) []
     = (None, [CallPut ''user:1'' (Some [100, 97, 116, 97])]) \<and>
   ValidatedStore_Put (NewWithDefaultValidators_plain recording_store) ''user:1''
      (Some [100, 97, 116, 97]) []
     = (None, [CallPut ''user:1'' (Some [100, 97, 116, 97])]) \<and>
   TrimSpace [] = [] \<and>
   \<not> (TrimSpace [] \<noteq> [] \<and> length ([] :: string) \<le> 1024 \<and> len (Some [120]) \<le> 100 * 1024 * 1024) \<and>
   \<not> (([] :: string) \<noteq> [] \<and> length ([] :: string) \<le> 1024 \<and> len (Some [120]) \<le> 100 * 1024 * 1024) \<and>
   ValidatedStore_Put (NewWithDefaultValidators recording_store) [] (Some [120]) []
     = (Some (Errorf ''key: must not be empty''), []) \<and>
   ValidatedStore_Put (NewWithDefaultValidators_plain recording_store) [] (Some [120]) []
     = (Some (Errorf ''key cannot be empty''), []) \<and>
   (TrimSpace (replicate (Suc 1024) (CHR ''a'')) \<noteq> [] \<and>
      replicate (Suc 1024) (CHR ''a'') \<noteq> [] \<and>
      length (replicate (Suc 1024) (CHR ''a'')) > 1024) \<and>
   ValidatedStore_Put (NewWithDefaultValidators recording_store)
          (replicate (Suc 1024) (CHR ''a'')) (Some [120]) []
     = (Some (Errorf (''key: must be at most '' @ format_d 1024 @ '' characters, got ''
                       @ format_d 1025)), []) \<and>
   ValidatedStore_Put (NewWithDefaultValidators_plain recording_store)
          (replicate (Suc 1024) (CHR ''a'')) (Some [120]) []
     = (Some (Errorf (''key too long: maximum '' @ format_d 1024 @ '' characters, got ''
                       @ format_d 1025)), []) \<and>
   (TrimSpace ''k'' \<noteq> [] \<and> ''k'' \<noteq> [] \<and> length ''k'' \<le> 1024 \<and>
      len (Some (replicate 104857601 0)) > 100 * 1024 * 1024) \<and>
   ValidatedStore_Put (NewWithDefaultValidators recording_store) ''k''
          (Some (replicate 104857601 0)) []
     = (Some (Errorf (''value too large: maximum '' @ format_d 104857600 @ '' bytes, got ''
                       @ format_d 104857601)), []) \<and>
   ValidatedStore_Put (NewWithDefaultValidators_plain recording_store) ''k''
          (Some (replicate 104857601 0)) []
     = (Some (Errorf (''value too large: maximum '' @ format_d 104857600 @ '' bytes, got ''
                       @ format_d 104857601)), [])"
proof -
  have h1: "TrimSpace ''user:1'' \<noteq> [] \<and> ''user:1'' \<noteq> [] \<and> length ''user:1'' \<le> 1024 \<and>
      len (Some [100, 97, 116, 97]) \<le> 100 * 1024 * 1024"
    by (simp add: TrimSpace_def leading_rune_def space_runes_def len_def)
  have h2: "TrimSpace [] = []" by (rule TrimSpace_empty)
  have h3: "TrimSpace (replicate (Suc 1024) (CHR ''a'')) \<noteq> [] \<and>
      replicate (Suc 1024) (CHR ''a'') \<noteq> [] \<and>
      length (replicate (Suc 1024) (CHR ''a'')) > 1024"
    unfolding TrimSpace_letters by simp
  have h4: "TrimSpace ''k'' \<noteq> [] \<and> ''k'' \<noteq> [] \<and> length ''k'' \<le> 1024 \<and>
      len (Some (replicate 104857601 0)) > 100 * 1024 * 1024"
    by (simp add: TrimSpace_def leading_rune_def space_runes_def len_def)
  note t1 = NewWithDefaultValidators_Put
              [of "''user:1''" "Some [100, 97, 116, 97]" recording_store "[]"]
  note t2 = NewWithDefaultValidators_Put [of "[]" "Some [120]" recording_store "[]"]
  note t3 = NewWithDefaultValidators_Put
              [of "replicate (Suc 1024) (CHR ''a'')" "Some [120]" recording_store "[]"]
  note t4 = NewWithDefaultValidators_Put
              [of "''k''" "Some (replicate 104857601 0)" recording_store "[]"]
  from t1 h1 have c1:
    "ValidatedStore_Put (NewWithDefaultValidators recording_store) ''user:1''
      (Some [100, 97, 116, 97]) [] = (None, [CallPut ''user:1'' (Some [100, 97, 116, 97])])"
    "ValidatedStore_Put (NewWithDefaultValidators_plain recording_store) ''user:1''
      (Some [100, 97, 116, 97]) [] = (None, [CallPut ''user:1'' (Some [100, 97, 116, 97])])"
    by (simp_all add: recording_store_def)
  from t2 h2 have c2:
    "ValidatedStore_Put (NewWithDefaultValidators recording_store) [] (Some [120]) []
       = (Some (Errorf ''key: must not be empty''), [])"
    "ValidatedStore_Put (NewWithDefaultValidators_plain recording_store) [] (Some [120]) []
       = (Some (Errorf ''key cannot be empty''), [])"
    by (auto simp: eval_errors ValidateNonEmptyKey_def)
  from t3 h3 have c3:
    "ValidatedStore_Put (NewWithDefaultValidators recording_store)
          (replicate (Suc 1024) (CHR ''a'')) (Some [120]) []
     = (Some (Errorf (''key: must be at most '' @ format_d 1024 @ '' characters, got ''
                       @ format_d 1025)), [])"
    "ValidatedStore_Put (NewWithDefaultValidators_plain recording_store)
          (replicate (Suc 1024) (CHR ''a'')) (Some [120]) []
     = (Some (Errorf (''key too long: maximum '' @ format_d 1024 @ '' characters, got ''
                       @ format_d 1025)), [])"
    by (auto simp: eval_errors ValidateKeyLength_def simp del: replicate.simps)
  from t4 h4 have c4:
    "ValidatedStore_Put (NewWithDefaultValidators recording_store) ''k''
          (Some (replicate 104857601 0)) []
     = (Some (Errorf (''value too large: maximum '' @ format_d 104857600 @ '' bytes, got ''
                       @ format_d 104857601)), [])"
    "ValidatedStore_Put (NewWithDefaultValidators_plain recording_store) ''k''
          (Some (replicate 104857601 0)) []
     = (Some (Errorf (''value too large: maximum '' @ format_d 104857600 @ '' bytes, got ''
                       @ format_d 104857601)), [])"
    by (auto simp: eval_errors ValidateValueSize_def ValueMaxSize_def len_def)
  have n: "\<not> (TrimSpace [] \<noteq> [] \<and> length ([] :: string) \<le> 1024 \<and>
               len (Some [120]) \<le> 100 * 1024 * 1024)"
          "\<not> (([] :: string) \<noteq> [] \<and> length ([] :: string) \<le> 1024 \<and>
               len (Some [120]) \<le> 100 * 1024 * 1024)"
    using h2 by simp_all
  from h1 c1 h2 n c2 h3 c3 h4 c4 show ?thesis by blast
qed

text \<open>
  C2 as stated fails. Under the empty key a value of more than 100 MiB is not rejected by
  the value size rule: in both variants \<open>Put\<close> returns the error of the non-empty rule,
  the value rule not being run. On the framework variant a key of 1025 spaces, longer than
  1024 characters, is not rejected by the max-length rule either: \<open>Put\<close> returns the error
  of the not-empty rule, which is not the error the max-length rule gives for that key.
\<close>

theorem NewWithDefaultValidators_Put_counterexample:
  "len (Some (replicate 104857601 0)) > 100 * 1024 * 1024 \<and>
   ValidatedStore_Put (NewWithDefaultValidators recording_store) []
      (Some (replicate 104857601 0)) []
     = (Some (Errorf ''key: must not be empty''), []) \<and>
   map_option ValidationError_Error
     (fst (ValueSizeValidator (100 * 1024 * 1024) [] (Some (replicate 104857601 0))
             (WithMetadata (NewContext ''value'') ''key'' (AnyString [])) ([] :: call list)))
     \<noteq> Some ''key: must not be empty'' \<and>
   ValidatedStore_Put (NewWithDefaultValidators_plain recording_store) []
      (Some (replicate 104857601 0)) []
     = (Some (Errorf ''key cannot be empty''), []) \<and>
   fst (ValidateValueSize ValueMaxSize [] (Some (replicate 104857601 0)) ([] :: call list))
     \<noteq> Some (Errorf ''key cannot be empty'') \<and>
   length (replicate 1025 (CHR 0x20)) > 1024 \<and>
   ValidatedStore_Put (NewWithDefaultValidators recording_store) (replicate 1025 (CHR 0x20))
      (Some [120]) []
     = (Some (Errorf ''key: must not be empty''), []) \<and>
   map_option ValidationError_Error
     (fst (Validate (MaxLength 1024) (replicate 1025 (CHR 0x20)) (NewContext ''key'')
             ([] :: call list)))
     \<noteq> Some ''key: must not be empty''"
  by (simp add: default_Put plain_default_Put TrimSpace_spaces TrimSpace_empty eval_errors
        len_def ValidateValueSize_def ValueMaxSize_def)

text \<open>
  C7 (as amended). For the store built by \<open>NewWithDefaultValidators\<close> and every value,
  \<open>Put\<close> under the empty key returns the plain error whose message is that of the error
  the not-empty rule produces (code \<open>not-empty\<close>, message \<open>key: must not be empty\<close>); the
  plain error itself carries no code. The world is left as it was: the inner store's
  \<open>Put\<close> is not invoked.
\<close>

theorem Put_empty_key:
  "\<exists>e. Validate NotEmpty [] (NewContext ''key'') w = (Some e, w) \<and>
        ValidationError_Code e = ''not-empty'' \<and>
        ValidationError_Error e = ''key: must not be empty'' \<and>
        ValidatedStore_Put (NewWithDefaultValidators s) [] v w
          = (Some (Errorf (ValidationError_Error e)), w) \<and>
        error_code (Errorf (ValidationError_Error e)) = None"
  by (simp add: default_Put TrimSpace_empty eval_errors)

text \<open>
  C7 as stated fails: the error \<open>Put\<close> returns for the empty key is the plain error made
  by \<open>fmt.Errorf\<close> from the message; it has no code, so its code is not \<open>not-empty\<close>.
\<close>

theorem Put_empty_key_counterexample:
  "fst (ValidatedStore_Put (NewWithDefaultValidators recording_store) [] (Some [120]) [])
     = Some (Errorf ''key: must not be empty'') \<and>
   map_option error_code
     (fst (ValidatedStore_Put (NewWithDefaultValidators recording_store) [] (Some [120]) []))
     \<noteq> Some (Some ''not-empty'')"
  by (simp add: default_Put TrimSpace_empty)

section \<open>Context.WithMetadata\<close>

text \<open>
  C5. \<open>WithMetadata\<close> returns a Context with the receiver's target whose metadata is a
  newly allocated map, different from the receiver's, holding the receiver's entries plus
  the entry \<open>(k, v)\<close>, the new value replacing an entry already under \<open>k\<close>; every map
  that existed before the call, the receiver's included, is unchanged in content and in
  size.
\<close>

theorem WithMetadata_copies:
  assumes "valid_ref h c" and "WithMetadata_ref c k v h = (c', h')"
  shows "RTarget c' = RTarget c \<and>
         RMetadata c' = Some (length h) \<and> RMetadata c' \<noteq> RMetadata c \<and>
         length h' = Suc (length h) \<and>
         h' ! length h = (case RMetadata c of None \<Rightarrow> Map.empty | Some r \<Rightarrow> h ! r)(k \<mapsto> v) \<and>
         (h' ! length h) k = Some v \<and>
         (\<forall>r < length h. h' ! r = h ! r \<and> card (dom (h' ! r)) = card (dom (h ! r))) \<and>
         read_context h' c = read_context h c \<and>
         read_context h' c' = WithMetadata (read_context h c) k v"
  using assms
  by (cases "RMetadata c")
     (auto simp: WithMetadata_ref_def make_map_def valid_ref_def read_context_def
        WithMetadata_def nth_append Let_def)

theorem WithMetadata_copies_witness:
  "valid_ref [[''a'' \<mapsto> AnyInt 1]] \<lparr>RTarget = ''key'', RMetadata = Some 0\<rparr> \<and>
   WithMetadata_ref \<lparr>RTarget = ''key'', RMetadata = Some 0\<rparr> ''a'' (AnyInt 2) [[''a'' \<mapsto> AnyInt 1]]
     = (\<lparr>RTarget = ''key'', RMetadata = Some 1\<rparr>, [[''a'' \<mapsto> AnyInt 1], [''a'' \<mapsto> AnyInt 2]]) \<and>
   [[''a'' \<mapsto> AnyInt 1], [''a'' \<mapsto> AnyInt 2]] ! 0 = [''a'' \<mapsto> AnyInt 1] \<and>
   ([[''a'' \<mapsto> AnyInt 1], [''a'' \<mapsto> AnyInt 2]] ! 1) ''a'' = Some (AnyInt 2)"
proof -
  have v: "valid_ref [[''a'' \<mapsto> AnyInt 1]] \<lparr>RTarget = ''key'', RMetadata = Some 0\<rparr>"
    by (simp add: valid_ref_def)
  have e: "WithMetadata_ref \<lparr>RTarget = ''key'', RMetadata = Some 0\<rparr> ''a'' (AnyInt 2)
             [[''a'' \<mapsto> AnyInt 1]]
     = (\<lparr>RTarget = ''key'', RMetadata = Some 1\<rparr>, [[''a'' \<mapsto> AnyInt 1], [''a'' \<mapsto> AnyInt 2]])"
    by (simp add: WithMetadata_ref_def make_map_def Let_def)
  from WithMetadata_copies[OF v e] v e show ?thesis by simp
qed

section \<open>Pattern\<close>

text \<open>
  C10. \<open>Pattern\<close> compiles its argument when it is called: for a pattern the compiler
  rejects the call panics, returning neither a validator nor an error; for a pattern the
  compiler accepts it returns a validator that gives a result on every string, context
  and world, leaves the world unchanged, and fails, with code \<open>pattern-mismatch\<close>, exactly
  on the strings the compiled expression does not match.
\<close>

theorem Pattern_compiles_eagerly:
  "(Compile pattern = None \<longrightarrow>
      (Pattern Compile MatchString pattern :: (string, 'w) Validator outcome) = Panics) \<and>
   (\<forall>regex. Compile pattern = Some regex \<longrightarrow>
      (\<exists>val :: (string, 'w) Validator.
         Pattern Compile MatchString pattern = Returns val \<and>
         (\<forall>x ctx w. \<exists>r. Validate val x ctx w = (r, w) \<and>
            (r \<noteq> None \<longleftrightarrow> \<not> MatchString regex x) \<and>
            (\<forall>e. r = Some e \<longrightarrow> ValidationError_Code e = ''pattern-mismatch''))))"
  by (auto simp: Pattern_def eval_errors)

theorem Pattern_compiles_eagerly_witness:
  "(\<lambda>p. if p = ''('' then None else Some p) ''('' = None \<and>
   (Pattern (\<lambda>p. if p = ''('' then None else Some p) (\<lambda>re s. re = s) ''(''
      :: (string, unit) Validator outcome) = Panics \<and>
   (\<lambda>p. if p = ''('' then None else Some p) ''a'' = Some ''a'' \<and>
   (\<exists>val :: (string, unit) Validator.
      Pattern (\<lambda>p. if p = ''('' then None else Some p) (\<lambda>re s. re = s) ''a'' = Returns val \<and>
      fst (Validate val ''a'' (NewContext ''key'') ()) = None \<and>
      fst (Validate val ''b'' (NewContext ''key'') ()) \<noteq> None)"
proof -
  define C :: "string \<Rightarrow> string option" where "C = (\<lambda>p. if p = ''('' then None else Some p)"
  define M :: "string \<Rightarrow> string \<Rightarrow> bool" where "M = (\<lambda>re s. re = s)"
  have h1: "C ''('' = None" by (simp add: C_def)
  have h2: "C ''a'' = Some ''a''" by (simp add: C_def)
  note t1 = Pattern_compiles_eagerly[of C "''(''" M, where 'w = unit]
  note t2 = Pattern_compiles_eagerly[of C "''a''" M, where 'w = unit]
  from t1 h1 have c1: "(Pattern C M ''('' :: (string, unit) Validator outcome) = Panics"
    by blast
  from t2 have "\<forall>regex. C ''a'' = Some regex \<longrightarrow>
      (\<exists>val :: (string, unit) Validator.
         Pattern C M ''a'' = Returns val \<and>
         (\<forall>x ctx w. \<exists>r. Validate val x ctx w = (r, w) \<and>
            (r \<noteq> None \<longleftrightarrow> \<not> M regex x) \<and>
            (\<forall>e. r = Some e \<longrightarrow> ValidationError_Code e = ''pattern-mismatch'')))"
    by (rule conjunct2)
  with h2 obtain val :: "(string, unit) Validator" where
    v1: "Pattern C M ''a'' = Returns val" and
    v2: "\<forall>x ctx w. \<exists>r. Validate val x ctx w = (r, w) \<and>
            (r \<noteq> None \<longleftrightarrow> \<not> M ''a'' x) \<and>
            (\<forall>e. r = Some e \<longrightarrow> ValidationError_Code e = ''pattern-mismatch'')"
    by blast
  from v2 obtain r where "Validate val ''a'' (NewContext ''key'') () = (r, ())"
      and "r \<noteq> None \<longleftrightarrow> \<not> M ''a'' ''a''" by blast
  then have a: "fst (Validate val ''a'' (NewContext ''key'') ()) = None" by (simp add: M_def)
  from v2 obtain r' where "Validate val ''b'' (NewContext ''key'') () = (r', ())"
      and "r' \<noteq> None \<longleftrightarrow> \<not> M ''a'' ''b''" by blast
  then have b: "fst (Validate val ''b'' (NewContext ''key'') ()) \<noteq> None" by (simp add: M_def)
  have "C ''('' = None \<and> (Pattern C M ''('' :: (string, unit) Validator outcome) = Panics \<and>
        C ''a'' = Some ''a'' \<and>
        (\<exists>val :: (string, unit) Validator. Pattern C M ''a'' = Returns val \<and>
           fst (Validate val ''a'' (NewContext ''key'') ()) = None \<and>
           fst (Validate val ''b'' (NewContext ''key'') ()) \<noteq> None)"
    using h1 h2 c1 v1 a b by (intro conjI exI[of _ val])
  then show ?thesis unfolding C_def M_def .
qed

end
